theory Spec2Isabelle
  imports Main
begin

section \<open>JavaScript values\<close>

text \<open>
  The values the server handles: what a body parser produces from a request, the
  request object handed to the Dialogflow client and the response objects it
  resolves with. Objects are lists of own data properties (the first binding of a
  key is the property's value); they carry no methods of their own.
  Numbers are integers here: the program does no arithmetic on them.
\<close>

datatype jsval =
    JUndefined
  | JNull
  | JBool bool
  | JNumber int
  | JString string
  | JArray "jsval list"
  | JObject "(string \<times> jsval) list"

text \<open>Thrown values: a \<open>TypeError\<close> of the language, or an error of the remote service.\<close>

datatype js_error = TypeError | ServiceError string

text \<open>A settled promise.\<close>

datatype 'a promise = Fulfilled 'a | Rejected js_error

text \<open>
  \<open>v.k\<close> for a property name \<open>k\<close> that no built-in prototype defines (every name
  the program reads is such a name): reading a property of \<open>undefined\<close> or
  \<open>null\<close> throws, a missing property is \<open>undefined\<close>.
\<close>

fun get_prop :: "jsval \<Rightarrow> string \<Rightarrow> js_error + jsval" where
  "get_prop JUndefined k = Inl TypeError"
| "get_prop JNull k = Inl TypeError"
| "get_prop (JObject fs) k = Inr (case map_of fs k of None \<Rightarrow> JUndefined | Some v \<Rightarrow> v)"
| "get_prop v k = Inr JUndefined"

text \<open>\<open>xs[0]\<close> on an array: \<open>undefined\<close> when the array is empty.\<close>

definition index0 :: "jsval list \<Rightarrow> jsval" where
  "index0 xs = (case xs of [] \<Rightarrow> JUndefined | x # _ \<Rightarrow> x)"

text \<open>
  Whether the conversion to a string that \<open>"..." + v\<close> and a template literal perform
  completes. A primitive always converts. A plain object converts through
  \<open>Object.prototype.toString\<close> unless an own property \<open>toString\<close> (a data property,
  hence not callable) shadows it, in which case the conversion throws a \<open>TypeError\<close>.
  An array converts by joining the conversions of its elements.
\<close>

fun string_convertible :: "jsval \<Rightarrow> bool" where
  "string_convertible (JObject fs) = (map_of fs ''toString'' = None)"
| "string_convertible (JArray xs) = list_all string_convertible xs"
| "string_convertible v = True"

text \<open>Truthiness, as tested by \<open>if (v)\<close>.\<close>

fun truthy :: "jsval \<Rightarrow> bool" where
  "truthy JUndefined = False"
| "truthy JNull = False"
| "truthy (JBool b) = b"
| "truthy (JNumber n) = (n \<noteq> 0)"
| "truthy (JString s) = (s \<noteq> [])"
| "truthy v = True"

section \<open>Console and outbound calls\<close>

text \<open>
  A logged line is kept as the pieces that were concatenated: literal text, a value,
  or an error.
\<close>

datatype js_piece = Lit string | Val jsval | Err js_error

record io =
  console :: "js_piece list list"
  outbound :: "jsval list"

definition console_log :: "js_piece list \<Rightarrow> 'a io_scheme \<Rightarrow> 'a io_scheme" where
  "console_log line st = st\<lparr>console := console st @ [line]\<rparr>"

text \<open>
  \<open>sessionClient.detectIntent\<close>: the remote service, reached through the vendored
  client. It is given the requests sent so far and the present request, and returns a
  promise that settles: fulfilled with an array of responses, or rejected with an error.
  Each call is recorded in \<open>outbound\<close>.
\<close>

type_synonym remote = "jsval list \<Rightarrow> jsval \<Rightarrow> jsval list promise"

definition call_remote :: "remote \<Rightarrow> jsval \<Rightarrow> 'a io_scheme \<Rightarrow> jsval list promise \<times> 'a io_scheme" where
  "call_remote detectIntent request st =
     (detectIntent (outbound st) request, st\<lparr>outbound := outbound st @ [request]\<rparr>)"

section \<open>server/chatbot.js\<close>

text \<open>The constants of lines 12 and 13.\<close>

definition sessionId :: string where
  "sessionId = ''987654''"

definition languageCode :: string where
  "languageCode = ''en-US''"

text \<open>
  The module's state: \<open>sessionPath\<close> (line 16) is computed when the module is loaded,
  by the client's \<open>sessionPath(projectId, sessionId)\<close> (here \<open>render\<close>, a method of the
  vendored client) from the configured project identifier.
\<close>

record process = io +
  sessionPath :: string

definition load_chatbot :: "(string \<Rightarrow> string \<Rightarrow> string) \<Rightarrow> string \<Rightarrow> process" where
  "load_chatbot render projectId =
     \<lparr>console = [], outbound = [], sessionPath = render projectId sessionId\<rparr>"

text \<open>The object literal \<open>botRequest\<close> of lines 20 to 28.\<close>

definition botRequest :: "string \<Rightarrow> jsval \<Rightarrow> jsval" where
  "botRequest session message =
     JObject [(''session'', JString session),
              (''queryInput'', JObject [(''text'',
                 JObject [(''text'', message), (''languageCode'', JString languageCode)])])]"

text \<open>The callback of \<open>.then\<close>: \<open>responses[0].queryResult\<close>.\<close>

definition requiredResponse :: "jsval list \<Rightarrow> js_error + jsval" where
  "requiredResponse responses = get_prop (index0 responses) ''queryResult''"

text \<open>
  The chain \<open>.then((responses) => responses[0].queryResult)
  .catch((error) => {console.log("ERROR: " + error)})\<close> on the promise of
  \<open>detectIntent\<close>, awaited: a rejection of the call, or an exception of the \<open>.then\<close>
  callback, is logged by the \<open>.catch\<close> callback, which returns nothing.
\<close>

definition await_response :: "jsval list promise \<Rightarrow> process \<Rightarrow> jsval promise \<times> process" where
  "await_response called st =
     (let chained = (case called of
                       Fulfilled responses \<Rightarrow>
                         (case requiredResponse responses of
                            Inl e \<Rightarrow> Rejected e
                          | Inr r \<Rightarrow> Fulfilled r)
                     | Rejected e \<Rightarrow> Rejected e)
      in case chained of
           Fulfilled response \<Rightarrow> (Fulfilled response, st)
         | Rejected error \<Rightarrow>
             (Fulfilled JUndefined, console_log [Lit ''ERROR: '', Err error] st))"

text \<open>
  \<open>talkToChatbot\<close> (lines 18 to 42), an async function: the result is the promise it
  returns.
  The log line comes first and throws when the message has no string conversion;
  then the request is built and sent, and the response awaited.
\<close>

definition talkToChatbot :: "remote \<Rightarrow> jsval \<Rightarrow> process \<Rightarrow> jsval promise \<times> process" where
  "talkToChatbot detectIntent message st =
     (if \<not> string_convertible message then (Rejected TypeError, st)
      else
        let st1 = console_log [Lit ''message '', Val message] st;
            request = botRequest (sessionPath st1) message;
            (called, st2) = call_remote detectIntent request st1
        in await_response called st2)"

section \<open>server/index.js\<close>

text \<open>
  The response object \<open>res\<close>: Node creates it with status code 200; \<open>res.send\<close>
  with an object answers with that status and the object's JSON serialisation.
\<close>

record res =
  statusCode :: nat
  sent :: "jsval option"

definition new_res :: res where
  "new_res = \<lparr>statusCode = 200, sent = None\<rparr>"

definition res_send :: "jsval \<Rightarrow> res \<Rightarrow> res" where
  "res_send payload r = r\<lparr>sent := Some payload\<rparr>"

text \<open>
  What a client parses from the JSON serialisation of a value: a property whose value
  is \<open>undefined\<close> is left out, an \<open>undefined\<close> array element becomes \<open>null\<close>.
\<close>

fun wire_body :: "jsval \<Rightarrow> jsval" where
  "wire_body (JObject fs) =
     JObject (map (\<lambda>(k, v). (k, wire_body v)) (filter (\<lambda>(k, v). v \<noteq> JUndefined) fs))"
| "wire_body (JArray xs) =
     JArray (map (\<lambda>x. if x = JUndefined then JNull else wire_body x) xs)"
| "wire_body v = v"

text \<open>How a handler invocation ends.\<close>

datatype completion = Done | Threw js_error | UnhandledRejection js_error

text \<open>
  The chain \<open>.then((response) => res.send({message: response}))
  .catch((error) => {...; res.send({error: "Error occured here"})})\<close> on the promise
  of \<open>talkToChatbot\<close>.
\<close>

definition respond :: "jsval promise \<Rightarrow> res \<Rightarrow> process \<Rightarrow> res \<times> process" where
  "respond p r st =
     (case p of
        Fulfilled response \<Rightarrow> (res_send (JObject [(''message'', response)]) r, st)
      | Rejected error \<Rightarrow>
          (res_send (JObject [(''error'', JString ''Error occured here'')]) r,
           console_log [Lit ''Something went wrong: '', Err error] st))"

text \<open>
  The handler of \<open>POST /chatbot\<close> (lines 15 to 29), given \<open>req.body\<close>: it reads the
  message, logs it, which throws when the message has no string conversion, and chains
  on the promise of \<open>talkToChatbot\<close>.
\<close>

definition post_chatbot :: "remote \<Rightarrow> jsval \<Rightarrow> process \<Rightarrow> completion \<times> res \<times> process" where
  "post_chatbot detectIntent reqbody st =
     (case get_prop reqbody ''message'' of
        Inl e \<Rightarrow> (Threw e, new_res, st)
      | Inr message \<Rightarrow>
          if \<not> string_convertible message then (Threw TypeError, new_res, st)
          else
            let st1 = console_log [Lit ''message'', Val message] st;
                (p, st2) = talkToChatbot detectIntent message st1;
                (r, st3) = respond p new_res st2
            in (Done, r, st3))"

text \<open>Requests handled one after the other by the same process.\<close>

fun serve :: "remote \<Rightarrow> jsval list \<Rightarrow> process \<Rightarrow> (completion \<times> res) list \<times> process" where
  "serve detectIntent [] st = ([], st)"
| "serve detectIntent (b # bs) st =
     (let (c, r, st1) = post_chatbot detectIntent b st;
          (rs, st2) = serve detectIntent bs st1
      in ((c, r) # rs, st2))"

section \<open>The alternate server (\<open>POST /send-msg\<close>)\<close>

text \<open>
  The second server of the source tree, which follows the vendored documentation in
  \<open>doc_knowledge_base.js\<close> (from line 163). Its module state: \<open>sessionId\<close> is
  \<open>uuid.v4()\<close>, drawn when the module is loaded.
\<close>

record sample_process = io +
  sample_sessionId :: string

definition load_sample :: "string \<Rightarrow> sample_process" where
  "load_sample uuid = \<lparr>console = [], outbound = [], sample_sessionId = uuid\<rparr>"

definition default_projectId :: string where
  "default_projectId = ''test-buzzwomen-chatbot-urwx''"

text \<open>A template literal \<open>`prefix${v}`\<close> given to \<open>console.log\<close>.\<close>

definition log_template ::
  "string \<Rightarrow> jsval \<Rightarrow> sample_process \<Rightarrow> js_error + sample_process" where
  "log_template prefix v st =
     (if string_convertible v then Inr (console_log [Lit prefix, Val v] st)
      else Inl TypeError)"

text \<open>The \<open>if (result.intent) ... else ...\<close> statement.\<close>

definition log_intent :: "jsval \<Rightarrow> sample_process \<Rightarrow> js_error + sample_process" where
  "log_intent result st =
     (case get_prop result ''intent'' of
        Inl e \<Rightarrow> Inl e
      | Inr intent \<Rightarrow>
          if truthy intent then
            (case get_prop intent ''displayName'' of
               Inl e \<Rightarrow> Inl e
             | Inr name \<Rightarrow> log_template ''  Intent: '' name st)
          else Inr (console_log [Lit ''  No intent matched.''] st))"

text \<open>The statements of \<open>runSample\<close> after the \<open>await\<close>.\<close>

definition report_result :: "jsval list \<Rightarrow> sample_process \<Rightarrow> jsval promise \<times> sample_process" where
  "report_result responses st =
     (let st1 = console_log [Lit ''Detected intent''] st in
      case get_prop (index0 responses) ''queryResult'' of
        Inl e \<Rightarrow> (Rejected e, st1)
      | Inr result \<Rightarrow>
          (case get_prop result ''queryText'' of
             Inl e \<Rightarrow> (Rejected e, st1)
           | Inr queryText \<Rightarrow>
               (case log_template ''  Query: '' queryText st1 of
                  Inl e \<Rightarrow> (Rejected e, st1)
                | Inr st2 \<Rightarrow>
                    (case get_prop result ''fulfillmentText'' of
                       Inl e \<Rightarrow> (Rejected e, st2)
                     | Inr fulfillmentText \<Rightarrow>
                         (case log_template ''  Response: '' fulfillmentText st2 of
                            Inl e \<Rightarrow> (Rejected e, st2)
                          | Inr st3 \<Rightarrow>
                              (case log_intent result st3 of
                                 Inl e \<Rightarrow> (Rejected e, st3)
                               | Inr st4 \<Rightarrow> (Fulfilled fulfillmentText, st4)))))))"

text \<open>The request literal of \<open>runSample\<close>.\<close>

definition sample_request :: "string \<Rightarrow> jsval \<Rightarrow> jsval" where
  "sample_request path msg =
     JObject [(''session'', JString path),
              (''queryInput'', JObject [(''text'',
                 JObject [(''text'', msg), (''languageCode'', JString ''en-US'')])])]"

text \<open>
  \<open>runSample\<close>, an async function with no handler of its own: a rejection of
  \<open>detectIntent\<close> at the \<open>await\<close>, or an exception after it, rejects its promise. The
  session path is rendered at each call by the client's \<open>projectAgentSessionPath\<close>
  (here \<open>render\<close>).
\<close>

definition runSample ::
  "(string \<Rightarrow> string \<Rightarrow> string) \<Rightarrow> remote \<Rightarrow> jsval \<Rightarrow> string \<Rightarrow> sample_process
     \<Rightarrow> jsval promise \<times> sample_process" where
  "runSample render detectIntent msg projectId st =
     (let path = render projectId (sample_sessionId st);
          request = sample_request path msg;
          (called, st1) = call_remote detectIntent request st
      in case called of
           Rejected e \<Rightarrow> (Rejected e, st1)
         | Fulfilled responses \<Rightarrow> report_result responses st1)"

text \<open>
  The handler of \<open>POST /send-msg\<close>: \<open>runSample(req.body.MSG).then((data) =>
  res.send({Reply: data}))\<close>, with no rejection handler.
\<close>

definition post_send_msg ::
  "(string \<Rightarrow> string \<Rightarrow> string) \<Rightarrow> remote \<Rightarrow> jsval \<Rightarrow> sample_process
     \<Rightarrow> completion \<times> res \<times> sample_process" where
  "post_send_msg render detectIntent reqbody st =
     (case get_prop reqbody ''MSG'' of
        Inl e \<Rightarrow> (Threw e, new_res, st)
      | Inr msg \<Rightarrow>
          (case runSample render detectIntent msg default_projectId st of
             (Fulfilled data, st1) \<Rightarrow> (Done, res_send (JObject [(''Reply'', data)]) new_res, st1)
           | (Rejected e, st1) \<Rightarrow> (UnhandledRejection e, new_res, st1)))"

section \<open>Example remotes\<close>

text \<open>A service that answers every request with the same responses, and one that fails.\<close>

definition answering :: "jsval list \<Rightarrow> remote" where
  "answering responses history request = Fulfilled responses"

definition failing :: "js_error \<Rightarrow> remote" where
  "failing e history request = Rejected e"

definition hello_body :: jsval where
  "hello_body = JObject [(''message'', JString ''hello'')]"

text \<open>A body whose message is an object with an own property \<open>toString\<close>.\<close>

definition shadowed_body :: jsval where
  "shadowed_body = JObject [(''message'', JObject [(''toString'', JNumber 1)])]"

definition greeting :: jsval where
  "greeting = JObject [(''fulfillmentText'', JString ''Hi''),
                       (''intent'', JObject [(''displayName'', JString ''greet'')])]"

definition demo_process :: process where
  "demo_process = \<lparr>console = [], outbound = [], sessionPath = ''S''\<rparr>"

definition demo_render :: "string \<Rightarrow> string \<Rightarrow> string" where
  "demo_render project session = project @ ''/'' @ session"

section \<open>Basic facts\<close>

lemma await_response_fulfilled: "\<exists>v. fst (await_response called st) = Fulfilled v"
  by (simp add: await_response_def Let_def split: promise.splits sum.splits)

lemma await_response_outbound [simp]:
  "outbound (snd (await_response called st)) = outbound st"
  by (simp add: await_response_def console_log_def Let_def split: promise.splits sum.splits)

lemma await_response_sessionPath [simp]:
  "sessionPath (snd (await_response called st)) = sessionPath st"
  by (simp add: await_response_def console_log_def Let_def split: promise.splits sum.splits)

lemma talkToChatbot_outbound:
  "string_convertible message \<Longrightarrow>
   outbound (snd (talkToChatbot detectIntent message st)) =
     outbound st @ [botRequest (sessionPath st) message]"
  by (simp add: talkToChatbot_def call_remote_def console_log_def Let_def)

lemma talkToChatbot_outbound_throw:
  "\<not> string_convertible message \<Longrightarrow>
   outbound (snd (talkToChatbot detectIntent message st)) = outbound st"
  by (simp add: talkToChatbot_def)

lemma talkToChatbot_sessionPath [simp]:
  "sessionPath (snd (talkToChatbot detectIntent message st)) = sessionPath st"
  by (simp add: talkToChatbot_def call_remote_def console_log_def Let_def)

lemma talkToChatbot_fulfilled:
  "string_convertible message \<Longrightarrow>
   \<exists>v. fst (talkToChatbot detectIntent message st) = Fulfilled v"
  by (simp add: talkToChatbot_def call_remote_def Let_def await_response_fulfilled)

lemma respond_sent:
  "\<exists>payload st'. respond p new_res st = (\<lparr>statusCode = 200, sent = Some payload\<rparr>, st')"
  by (cases p) (simp_all add: respond_def res_send_def new_res_def)

lemma respond_outbound [simp]: "outbound (snd (respond p r st)) = outbound st"
  by (cases p) (simp_all add: respond_def console_log_def)

lemma respond_sessionPath [simp]: "sessionPath (snd (respond p r st)) = sessionPath st"
  by (cases p) (simp_all add: respond_def console_log_def)

lemma post_chatbot_convertible:
  assumes "get_prop reqbody ''message'' = Inr message" and "string_convertible message"
  shows "post_chatbot detectIntent reqbody st =
           (let st1 = console_log [Lit ''message'', Val message] st;
                (p, st2) = talkToChatbot detectIntent message st1;
                (r, st3) = respond p new_res st2
            in (Done, r, st3))"
  using assms by (simp add: post_chatbot_def)

lemma post_chatbot_sessionPath [simp]:
  "sessionPath (snd (snd (post_chatbot detectIntent reqbody st))) = sessionPath st"
  by (simp add: post_chatbot_def console_log_def Let_def case_prod_beta split: sum.splits)

lemma post_chatbot_outbound:
  "outbound (snd (snd (post_chatbot detectIntent reqbody st))) =
     outbound st @
       (case get_prop reqbody ''message'' of
          Inl e \<Rightarrow> []
        | Inr message \<Rightarrow>
            if string_convertible message then [botRequest (sessionPath st) message] else [])"
  by (simp add: post_chatbot_def console_log_def Let_def case_prod_beta talkToChatbot_outbound
      split: sum.splits)

lemma post_chatbot_exact:
  assumes "get_prop reqbody ''message'' = Inr message" and "string_convertible message"
  shows "fst (post_chatbot detectIntent reqbody st) = Done
       \<and> fst (snd (post_chatbot detectIntent reqbody st)) =
            \<lparr>statusCode = 200,
             sent = Some (JObject [(''message'',
               (case detectIntent (outbound st) (botRequest (sessionPath st) message) of
                  Fulfilled responses \<Rightarrow>
                    (case get_prop (index0 responses) ''queryResult'' of
                       Inl e \<Rightarrow> JUndefined
                     | Inr queryResult \<Rightarrow> queryResult)
                | Rejected e \<Rightarrow> JUndefined))])\<rparr>"
  using assms
  by (simp add: post_chatbot_def talkToChatbot_def call_remote_def console_log_def
      await_response_def requiredResponse_def respond_def res_send_def new_res_def Let_def
      split: promise.splits sum.splits)

lemma post_chatbot_throw:
  assumes "get_prop reqbody ''message'' = Inr message" and "\<not> string_convertible message"
  shows "post_chatbot detectIntent reqbody st = (Threw TypeError, \<lparr>statusCode = 200, sent = None\<rparr>, st)"
  using assms by (simp add: post_chatbot_def new_res_def)

section \<open>The outbound request\<close>

text \<open>
  C3. For every input message, each request the Bridge hands to the remote service is
  \<open>{session: S, queryInput: {text: {text: m, languageCode: "en-US"}}}\<close> with \<open>m\<close> that
  message and \<open>S\<close> the session path of the process, computed when the module is loaded
  from the fixed session id. For a text message \<open>m\<close> the Bridge logs it, builds exactly
  this one request, calls the remote with it and awaits the outcome.
\<close>

theorem talkToChatbot_request_shape:
  "list_all
     (\<lambda>request. request =
        JObject [(''session'', JString (sessionPath st)),
                 (''queryInput'', JObject [(''text'',
                    JObject [(''text'', message), (''languageCode'', JString ''en-US'')])])])
     (drop (length (outbound st)) (outbound (snd (talkToChatbot detectIntent message st))))
   \<and> (let request =
          JObject [(''session'', JString (sessionPath st)),
                   (''queryInput'', JObject [(''text'',
                      JObject [(''text'', JString m), (''languageCode'', JString ''en-US'')])])]
        in talkToChatbot detectIntent (JString m) st =
             await_response (detectIntent (outbound st) request)
               (st\<lparr>console := console st @ [[Lit ''message '', Val (JString m)]],
                   outbound := outbound st @ [request]\<rparr>)
           \<and> outbound (snd (talkToChatbot detectIntent (JString m) st)) = outbound st @ [request])
   \<and> sessionPath (load_chatbot render projectId) = render projectId ''987654''"
proof -
  have every: "list_all (\<lambda>request. request = botRequest (sessionPath st) message)
      (drop (length (outbound st)) (outbound (snd (talkToChatbot detectIntent message st))))"
    by (cases "string_convertible message")
       (simp_all add: talkToChatbot_outbound talkToChatbot_outbound_throw)
  have run: "talkToChatbot detectIntent (JString m) st =
      await_response (detectIntent (outbound st) (botRequest (sessionPath st) (JString m)))
        (st\<lparr>console := console st @ [[Lit ''message '', Val (JString m)]],
            outbound := outbound st @ [botRequest (sessionPath st) (JString m)]\<rparr>)"
    by (simp add: talkToChatbot_def call_remote_def console_log_def Let_def)
  have calls: "outbound (snd (talkToChatbot detectIntent (JString m) st)) =
      outbound st @ [botRequest (sessionPath st) (JString m)]"
    using talkToChatbot_outbound [of "JString m" detectIntent st] by simp
  have loaded: "sessionPath (load_chatbot render projectId) = render projectId ''987654''"
    by (simp add: load_chatbot_def sessionId_def)
  from every run calls loaded show ?thesis
    by (simp add: botRequest_def languageCode_def Let_def)
qed

section \<open>What the Endpoint sends\<close>

text \<open>
  C1, as the code has it. For a request whose message has a string conversion and
  that the remote service answers successfully, the handler of \<open>POST /chatbot\<close>
  answers with status 200 and the body \<open>{message: Q}\<close>, where \<open>Q\<close> is the whole
  \<open>queryResult\<close> of the first response: the Bridge returns \<open>responses[0].queryResult\<close>
  itself, not its \<open>fulfillmentText\<close>.
\<close>

theorem chatbot_reply_is_queryResult:
  assumes "get_prop reqbody ''message'' = Inr message"
    and "string_convertible message"
    and "detectIntent (outbound st) (botRequest (sessionPath st) message) = Fulfilled responses"
    and "get_prop (index0 responses) ''queryResult'' = Inr queryResult"
  shows "fst (post_chatbot detectIntent reqbody st) = Done
       \<and> fst (snd (post_chatbot detectIntent reqbody st)) =
            \<lparr>statusCode = 200, sent = Some (JObject [(''message'', queryResult)])\<rparr>"
  using assms
  by (simp add: post_chatbot_def talkToChatbot_def call_remote_def console_log_def
      await_response_def requiredResponse_def respond_def res_send_def new_res_def Let_def)

theorem chatbot_reply_is_queryResult_witness:
  "fst (post_chatbot (answering [JObject [(''queryResult'', greeting)]]) hello_body demo_process) = Done
   \<and> fst (snd (post_chatbot (answering [JObject [(''queryResult'', greeting)]]) hello_body demo_process)) =
        \<lparr>statusCode = 200, sent = Some (JObject [(''message'', greeting)])\<rparr>"
  using chatbot_reply_is_queryResult
    [where reqbody = hello_body and message = "JString ''hello''"
       and detectIntent = "answering [JObject [(''queryResult'', greeting)]]"
       and st = demo_process and responses = "[JObject [(''queryResult'', greeting)]]"
       and queryResult = greeting]
  by (simp add: hello_body_def answering_def index0_def)

text \<open>
  The claim as worded fails: the service answers \<open>hello\<close> with the fulfillment text
  \<open>Hi\<close> and the matched intent \<open>greet\<close>; the body sent is not \<open>{message: "Hi"}\<close>,
  and the intent is in it.
\<close>

theorem chatbot_reply_counterexample:
  "get_prop greeting ''fulfillmentText'' = Inr (JString ''Hi'')
   \<and> sent (fst (snd (post_chatbot (answering [JObject [(''queryResult'', greeting)]])
          hello_body demo_process))) \<noteq> Some (JObject [(''message'', JString ''Hi'')])
   \<and> sent (fst (snd (post_chatbot (answering [JObject [(''queryResult'', greeting)]])
          hello_body demo_process))) =
       Some (JObject [(''message'',
         JObject [(''fulfillmentText'', JString ''Hi''),
                  (''intent'', JObject [(''displayName'', JString ''greet'')])])])"
  by (simp add: post_chatbot_def talkToChatbot_def call_remote_def console_log_def
      await_response_def requiredResponse_def respond_def res_send_def new_res_def Let_def
      hello_body_def answering_def index0_def greeting_def demo_process_def)

section \<open>Remote failure\<close>

text \<open>
  C2, as the code has it. When the \<open>detectIntent\<close> promise rejects, the Bridge logs
  the error, swallows it and resolves with \<open>undefined\<close>; the Endpoint then takes its
  success branch and sends, with status 200, the body \<open>{message: undefined}\<close>, not the
  error payload. The field is \<open>undefined\<close>, not \<open>null\<close>: its JSON serialisation
  leaves the field out, so the client receives \<open>{}\<close>.
\<close>

theorem remote_failure_forwarded_as_undefined:
  assumes "string_convertible message"
    and "detectIntent (outbound st) (botRequest (sessionPath st) message) = Rejected e"
  shows "talkToChatbot detectIntent message st =
           (Fulfilled JUndefined,
            st\<lparr>console := console st @ [[Lit ''message '', Val message], [Lit ''ERROR: '', Err e]],
                outbound := outbound st @ [botRequest (sessionPath st) message]\<rparr>)
       \<and> respond (Fulfilled JUndefined) new_res st' =
            (\<lparr>statusCode = 200, sent = Some (JObject [(''message'', JUndefined)])\<rparr>, st')
       \<and> (get_prop reqbody ''message'' = Inr message \<longrightarrow>
            fst (post_chatbot detectIntent reqbody st) = Done
            \<and> fst (snd (post_chatbot detectIntent reqbody st)) =
                 \<lparr>statusCode = 200, sent = Some (JObject [(''message'', JUndefined)])\<rparr>)
       \<and> wire_body (JObject [(''message'', JUndefined)]) = JObject []"
proof -
  have bridge: "talkToChatbot detectIntent message st =
      (Fulfilled JUndefined,
       st\<lparr>console := console st @ [[Lit ''message '', Val message], [Lit ''ERROR: '', Err e]],
           outbound := outbound st @ [botRequest (sessionPath st) message]\<rparr>)"
    using assms
    by (simp add: talkToChatbot_def call_remote_def console_log_def await_response_def Let_def)
  have chain: "respond (Fulfilled JUndefined) new_res st' =
      (\<lparr>statusCode = 200, sent = Some (JObject [(''message'', JUndefined)])\<rparr>, st')"
    by (simp add: respond_def res_send_def new_res_def)
  have endpoint: "fst (post_chatbot detectIntent reqbody st) = Done
      \<and> fst (snd (post_chatbot detectIntent reqbody st)) =
           \<lparr>statusCode = 200, sent = Some (JObject [(''message'', JUndefined)])\<rparr>"
    if "get_prop reqbody ''message'' = Inr message"
    using that assms
    by (simp add: post_chatbot_def talkToChatbot_def call_remote_def console_log_def
        await_response_def respond_def res_send_def new_res_def Let_def)
  have wire: "wire_body (JObject [(''message'', JUndefined)]) = JObject []"
    by simp
  from bridge chain endpoint wire show ?thesis by blast
qed

theorem remote_failure_forwarded_as_undefined_witness:
  "talkToChatbot (failing (ServiceError ''quota exceeded'')) (JString ''hello'') demo_process =
     (Fulfilled JUndefined,
      demo_process\<lparr>console := [[Lit ''message '', Val (JString ''hello'')],
                                 [Lit ''ERROR: '', Err (ServiceError ''quota exceeded'')]],
                    outbound := [botRequest ''S'' (JString ''hello'')]\<rparr>)
   \<and> fst (post_chatbot (failing (ServiceError ''quota exceeded'')) hello_body demo_process) = Done
   \<and> fst (snd (post_chatbot (failing (ServiceError ''quota exceeded'')) hello_body demo_process)) =
        \<lparr>statusCode = 200, sent = Some (JObject [(''message'', JUndefined)])\<rparr>"
  using remote_failure_forwarded_as_undefined
    [where message = "JString ''hello''" and detectIntent = "failing (ServiceError ''quota exceeded'')"
       and st = demo_process and e = "ServiceError ''quota exceeded''" and reqbody = hello_body]
  by (simp add: failing_def hello_body_def demo_process_def)

text \<open>
  The claim as worded fails: with the service out of quota, the body handed to
  \<open>res.send\<close> for \<open>{message: "hello"}\<close> is not \<open>{message: null}\<close>, and neither is what
  the client parses from it.
\<close>

theorem remote_failure_counterexample:
  "sent (fst (snd (post_chatbot (failing (ServiceError ''quota exceeded'')) hello_body demo_process)))
     \<noteq> Some (JObject [(''message'', JNull)])
   \<and> map_option wire_body
        (sent (fst (snd (post_chatbot (failing (ServiceError ''quota exceeded'')) hello_body
           demo_process))))
     \<noteq> Some (JObject [(''message'', JNull)])"
  by (simp add: post_chatbot_def talkToChatbot_def call_remote_def console_log_def
      await_response_def requiredResponse_def respond_def res_send_def new_res_def Let_def
      hello_body_def failing_def demo_process_def)

lemma botRequest_text:
  "(case get_prop (botRequest S message) ''queryInput'' of
      Inl e \<Rightarrow> Inl e
    | Inr queryInput \<Rightarrow>
        (case get_prop queryInput ''text'' of
           Inl e \<Rightarrow> Inl e
         | Inr t \<Rightarrow> get_prop t ''text'')) = Inr message"
  by (simp add: botRequest_def)

lemma post_chatbot_done:
  assumes "get_prop reqbody ''message'' = Inr message" and "string_convertible message"
  shows "\<exists>payload st'. post_chatbot detectIntent reqbody st =
           (Done, \<lparr>statusCode = 200, sent = Some payload\<rparr>, st')
         \<and> outbound st' = outbound st @ [botRequest (sessionPath st) message]"
proof -
  define st1 where "st1 = console_log [Lit ''message'', Val message] st"
  obtain q st2 where t: "talkToChatbot detectIntent message st1 = (q, st2)"
    by (cases "talkToChatbot detectIntent message st1")
  obtain payload st3 where r: "respond q new_res st2 = (\<lparr>statusCode = 200, sent = Some payload\<rparr>, st3)"
    using respond_sent by blast
  have run: "post_chatbot detectIntent reqbody st = (Done, \<lparr>statusCode = 200, sent = Some payload\<rparr>, st3)"
    using assms t r by (simp add: post_chatbot_def st1_def)
  have "outbound (snd (snd (post_chatbot detectIntent reqbody st))) =
      outbound st @ [botRequest (sessionPath st) message]"
    using assms by (simp add: post_chatbot_outbound)
  with run have "outbound st3 = outbound st @ [botRequest (sessionPath st) message]"
    by simp
  with run show ?thesis by blast
qed

lemma post_chatbot_cases:
  "(\<exists>payload st'. post_chatbot detectIntent reqbody st =
        (Done, \<lparr>statusCode = 200, sent = Some payload\<rparr>, st')
      \<and> length (outbound st') = Suc (length (outbound st)))
   \<or> (\<exists>e. post_chatbot detectIntent reqbody st = (Threw e, \<lparr>statusCode = 200, sent = None\<rparr>, st))"
proof (cases "get_prop reqbody ''message''")
  case (Inl e)
  then show ?thesis by (simp add: post_chatbot_def new_res_def)
next
  case (Inr message)
  show ?thesis
  proof (cases "string_convertible message")
    case False
    with Inr show ?thesis by (simp add: post_chatbot_def new_res_def)
  next
    case True
    from post_chatbot_done [OF Inr True, of detectIntent st] obtain payload st'
      where "post_chatbot detectIntent reqbody st = (Done, \<lparr>statusCode = 200, sent = Some payload\<rparr>, st')"
        and "outbound st' = outbound st @ [botRequest (sessionPath st) message]"
      by blast
    then show ?thesis by simp
  qed
qed

section \<open>Status code and the catch branch\<close>

text \<open>
  C4, as the code has it. The handler of \<open>POST /chatbot\<close> never sets a status, so what
  it sends goes out with status 200. For every request whose message has a string
  conversion (every string, and an absent message among them) the handler calls the
  remote service once and, whatever the outcome of that call, completes with a body
  sent under status 200. For a message with no string conversion the handler throws at
  its first log line, before any remote call, and sends nothing; no request ends in any
  other way. And whichever way the promise of the Bridge settles, fulfilled (success, or
  a remote failure swallowed) or rejected (internal failure, the catch branch), the
  chain on it sends with status 200.
\<close>

theorem chatbot_status_200:
  "((\<exists>payload st'. post_chatbot detectIntent reqbody st =
        (Done, \<lparr>statusCode = 200, sent = Some payload\<rparr>, st')
      \<and> length (outbound st') = Suc (length (outbound st)))
    \<or> (\<exists>e. post_chatbot detectIntent reqbody st = (Threw e, \<lparr>statusCode = 200, sent = None\<rparr>, st)))
   \<and> (get_prop reqbody ''message'' = Inr message \<and> string_convertible message \<longrightarrow>
      (\<exists>payload st'. post_chatbot detectIntent reqbody st =
         (Done, \<lparr>statusCode = 200, sent = Some payload\<rparr>, st')
       \<and> outbound st' = outbound st @ [botRequest (sessionPath st) message]))
   \<and> (get_prop reqbody ''message'' = Inr message \<and> \<not> string_convertible message \<longrightarrow>
      post_chatbot detectIntent reqbody st =
        (Threw TypeError, \<lparr>statusCode = 200, sent = None\<rparr>, st))
   \<and> (\<exists>payload st'. respond p new_res st = (\<lparr>statusCode = 200, sent = Some payload\<rparr>, st'))"
proof -
  have handler: "\<exists>payload st'. post_chatbot detectIntent reqbody st =
      (Done, \<lparr>statusCode = 200, sent = Some payload\<rparr>, st')
      \<and> outbound st' = outbound st @ [botRequest (sessionPath st) message]"
    if "get_prop reqbody ''message'' = Inr message" and "string_convertible message"
    using post_chatbot_done [OF that, of detectIntent st] by blast
  have throws: "post_chatbot detectIntent reqbody st =
      (Threw TypeError, \<lparr>statusCode = 200, sent = None\<rparr>, st)"
    if "get_prop reqbody ''message'' = Inr message" and "\<not> string_convertible message"
    using that by (rule post_chatbot_throw)
  from post_chatbot_cases handler throws respond_sent show ?thesis by blast
qed

theorem chatbot_status_200_witness:
  "(\<exists>payload st'. post_chatbot (failing (ServiceError ''unavailable'')) hello_body demo_process =
      (Done, \<lparr>statusCode = 200, sent = Some payload\<rparr>, st')
    \<and> outbound st' = [botRequest ''S'' (JString ''hello'')])
   \<and> post_chatbot (failing (ServiceError ''unavailable'')) shadowed_body demo_process =
       (Threw TypeError, \<lparr>statusCode = 200, sent = None\<rparr>, demo_process)
   \<and> (\<exists>payload st'. respond (Rejected TypeError) new_res demo_process =
      (\<lparr>statusCode = 200, sent = Some payload\<rparr>, st'))"
proof -
  have first: "\<exists>payload st'. post_chatbot (failing (ServiceError ''unavailable'')) hello_body demo_process =
      (Done, \<lparr>statusCode = 200, sent = Some payload\<rparr>, st')
    \<and> outbound st' = [botRequest ''S'' (JString ''hello'')]"
    using chatbot_status_200
      [where reqbody = hello_body and message = "JString ''hello''"
         and detectIntent = "failing (ServiceError ''unavailable'')" and st = demo_process]
    by (simp add: hello_body_def demo_process_def)
  have second: "post_chatbot (failing (ServiceError ''unavailable'')) shadowed_body demo_process =
       (Threw TypeError, \<lparr>statusCode = 200, sent = None\<rparr>, demo_process)"
    using chatbot_status_200
      [where reqbody = shadowed_body and message = "JObject [(''toString'', JNumber 1)]"
         and detectIntent = "failing (ServiceError ''unavailable'')" and st = demo_process]
    by (simp add: shadowed_body_def)
  have third: "\<exists>payload st'. respond (Rejected TypeError) new_res demo_process =
      (\<lparr>statusCode = 200, sent = Some payload\<rparr>, st')"
    using chatbot_status_200 [where p = "Rejected TypeError" and st = demo_process] by blast
  from first second third show ?thesis by blast
qed

text \<open>
  The claim as worded fails: for the body \<open>{"message": {"toString": 1}}\<close> the
  concatenation \<open>"message" + message\<close> of the handler's first line throws a \<open>TypeError\<close>;
  the handler calls neither the Bridge nor \<open>res.send\<close>, so it sends no response with
  status 200.
\<close>

theorem chatbot_status_counterexample:
  "fst (post_chatbot (answering [JObject [(''queryResult'', greeting)]]) shadowed_body demo_process) =
     Threw TypeError
   \<and> sent (fst (snd (post_chatbot (answering [JObject [(''queryResult'', greeting)]])
        shadowed_body demo_process))) = None
   \<and> outbound (snd (snd (post_chatbot (answering [JObject [(''queryResult'', greeting)]])
        shadowed_body demo_process))) = []"
  by (simp add: post_chatbot_def shadowed_body_def new_res_def demo_process_def)

text \<open>
  C5. Whatever the outcome of the remote call, resolution or rejection, the promise
  chain of the Bridge is fulfilled, and so is \<open>talkToChatbot\<close> for every text message;
  and for every request body, remote service and process state the handler of
  \<open>POST /chatbot\<close> sends either nothing or a body \<open>{message: v}\<close>, never the payload
  \<open>{error: "Error occured here"}\<close> of its catch branch.
\<close>

theorem bridge_never_rejects:
  "(\<exists>v. fst (await_response called st) = Fulfilled v)
   \<and> (\<exists>v. fst (talkToChatbot detectIntent (JString m) st) = Fulfilled v)
   \<and> ((\<exists>v. sent (fst (snd (post_chatbot detectIntent reqbody st))) = Some (JObject [(''message'', v)]))
        \<or> sent (fst (snd (post_chatbot detectIntent reqbody st))) = None)
   \<and> sent (fst (snd (post_chatbot detectIntent reqbody st))) \<noteq>
        Some (JObject [(''error'', JString ''Error occured here'')])"
proof -
  have chain: "\<exists>v. fst (await_response called st) = Fulfilled v"
    by (rule await_response_fulfilled)
  have bridge: "\<exists>v. fst (talkToChatbot detectIntent (JString m) st) = Fulfilled v"
    by (rule talkToChatbot_fulfilled) simp
  have shape: "(\<exists>v. sent (fst (snd (post_chatbot detectIntent reqbody st))) = Some (JObject [(''message'', v)]))
      \<or> sent (fst (snd (post_chatbot detectIntent reqbody st))) = None"
  proof (cases "get_prop reqbody ''message''")
    case (Inl e)
    then show ?thesis by (simp add: post_chatbot_def new_res_def)
  next
    case (Inr message)
    show ?thesis
    proof (cases "string_convertible message")
      case False
      with Inr show ?thesis by (simp add: post_chatbot_def new_res_def)
    next
      case True
      define st1 where "st1 = console_log [Lit ''message'', Val message] st"
      obtain v where v: "fst (talkToChatbot detectIntent message st1) = Fulfilled v"
        using talkToChatbot_fulfilled [OF True] by blast
      have "sent (fst (snd (post_chatbot detectIntent reqbody st))) = Some (JObject [(''message'', v)])"
        using Inr True v
        by (simp add: post_chatbot_def st1_def case_prod_beta respond_def res_send_def new_res_def)
      then show ?thesis by blast
    qed
  qed
  from shape have unreachable: "sent (fst (snd (post_chatbot detectIntent reqbody st))) \<noteq>
      Some (JObject [(''error'', JString ''Error occured here'')])"
    by auto
  from chain bridge shape unreachable show ?thesis by blast
qed

section \<open>The session across requests\<close>

lemma get_prop_session [simp]: "get_prop (botRequest S message) ''session'' = Inr (JString S)"
  by (simp add: botRequest_def)

lemma serve_sessionPath [simp]:
  "sessionPath (snd (serve detectIntent bodies st)) = sessionPath st"
  by (induction bodies arbitrary: st) (simp_all add: case_prod_beta Let_def)

lemma serve_outbound:
  "\<exists>new. outbound (snd (serve detectIntent bodies st)) = outbound st @ new
     \<and> list_all (\<lambda>request. get_prop request ''session'' = Inr (JString (sessionPath st))) new"
proof (induction bodies arbitrary: st)
  case Nil
  show ?case by simp
next
  case (Cons b bs)
  define st1 where "st1 = snd (snd (post_chatbot detectIntent b st))"
  have path: "sessionPath st1 = sessionPath st"
    by (simp add: st1_def)
  obtain first where first: "outbound st1 = outbound st @ first"
    and first_ok: "list_all (\<lambda>request. get_prop request ''session'' = Inr (JString (sessionPath st))) first"
    by (simp add: st1_def post_chatbot_outbound split: sum.splits)
  obtain rest where rest: "outbound (snd (serve detectIntent bs st1)) = outbound st1 @ rest"
    and rest_ok: "list_all (\<lambda>request. get_prop request ''session'' = Inr (JString (sessionPath st1))) rest"
    using Cons.IH [of st1] by blast
  have "outbound (snd (serve detectIntent (b # bs) st)) = outbound st @ (first @ rest)"
    using first rest by (simp add: case_prod_beta Let_def st1_def)
  moreover have "list_all (\<lambda>request. get_prop request ''session'' = Inr (JString (sessionPath st)))
      (first @ rest)"
    using first_ok rest_ok path by simp
  ultimately show ?case by blast
qed

text \<open>
  C6. The session path is set once, when the module is loaded, from the fixed session
  id \<open>987654\<close>; no sequence of requests changes it, every outbound request built while
  serving any sequence of requests carries it, and two requests in a row with message
  texts \<open>m1\<close> and \<open>m2\<close>, alike or different, produce two outbound requests with that
  same session.
\<close>

theorem session_shared_by_all_requests:
  "sessionPath (load_chatbot render projectId) = render projectId ''987654''
   \<and> sessionPath (snd (serve detectIntent bodies st)) = sessionPath st
   \<and> list_all (\<lambda>request. get_prop request ''session'' = Inr (JString (sessionPath st)))
        (drop (length (outbound st)) (outbound (snd (serve detectIntent bodies st))))
   \<and> outbound (snd (serve detectIntent
        [JObject [(''message'', JString m1)], JObject [(''message'', JString m2)]] st)) =
      outbound st @ [botRequest (sessionPath st) (JString m1), botRequest (sessionPath st) (JString m2)]"
proof -
  have loaded: "sessionPath (load_chatbot render projectId) = render projectId ''987654''"
    by (simp add: load_chatbot_def sessionId_def)
  obtain new where new: "outbound (snd (serve detectIntent bodies st)) = outbound st @ new"
    and ok: "list_all (\<lambda>request. get_prop request ''session'' = Inr (JString (sessionPath st))) new"
    using serve_outbound by blast
  have every: "list_all (\<lambda>request. get_prop request ''session'' = Inr (JString (sessionPath st)))
      (drop (length (outbound st)) (outbound (snd (serve detectIntent bodies st))))"
    using new ok by simp
  have pair: "outbound (snd (serve detectIntent
        [JObject [(''message'', JString m1)], JObject [(''message'', JString m2)]] st)) =
      outbound st @ [botRequest (sessionPath st) (JString m1), botRequest (sessionPath st) (JString m2)]"
    by (simp add: case_prod_beta Let_def post_chatbot_outbound)
  from loaded every pair show ?thesis by simp
qed

text \<open>
  C10. The request the Bridge builds depends on the message and on the session path
  only: after any two histories of requests served from the same starting process,
  against any remote services, two invocations of \<open>talkToChatbot\<close> with the same message
  add the same outbound requests; for a text message \<open>m\<close> that is the one request
  \<open>botRequest S m\<close>, with \<open>S\<close> the session path of the starting process.
\<close>

theorem request_independent_of_history:
  "drop (length (outbound (snd (serve remote1 history1 st))))
     (outbound (snd (talkToChatbot remote1' message (snd (serve remote1 history1 st))))) =
   drop (length (outbound (snd (serve remote2 history2 st))))
     (outbound (snd (talkToChatbot remote2' message (snd (serve remote2 history2 st)))))
   \<and> drop (length (outbound (snd (serve remote1 history1 st))))
       (outbound (snd (talkToChatbot remote1' (JString m) (snd (serve remote1 history1 st))))) =
     [botRequest (sessionPath st) (JString m)]"
proof -
  have same: "drop (length (outbound (snd (serve remote1 history1 st))))
     (outbound (snd (talkToChatbot remote1' message (snd (serve remote1 history1 st))))) =
   drop (length (outbound (snd (serve remote2 history2 st))))
     (outbound (snd (talkToChatbot remote2' message (snd (serve remote2 history2 st)))))"
  proof (cases "string_convertible message")
    case True
    then show ?thesis by (simp add: talkToChatbot_outbound)
  next
    case False
    then show ?thesis by (simp add: talkToChatbot_outbound_throw)
  qed
  have one: "drop (length (outbound (snd (serve remote1 history1 st))))
       (outbound (snd (talkToChatbot remote1' (JString m) (snd (serve remote1 history1 st))))) =
     [botRequest (sessionPath st) (JString m)]"
    by (simp add: talkToChatbot_outbound)
  from same one show ?thesis by simp
qed

section \<open>Unvalidated messages\<close>

text \<open>
  C8. Nothing validates the message. For a body whose \<open>message\<close> is the empty string,
  and for a body with no \<open>message\<close> field (the message is then \<open>undefined\<close>), the handler
  of \<open>POST /chatbot\<close> calls the Bridge, which sends one request whose text field is that
  very message, and the handler completes with a body sent under status 200, whatever
  the remote service answers: no layer rejects the request.
\<close>

theorem empty_message_passed_through:
  "(\<exists>payload st'. post_chatbot detectIntent (JObject ((''message'', JString '''') # props)) st =
        (Done, \<lparr>statusCode = 200, sent = Some payload\<rparr>, st')
      \<and> outbound st' = outbound st @ [botRequest (sessionPath st) (JString '''')])
   \<and> (map_of props ''message'' = None \<longrightarrow>
        (\<exists>payload st'. post_chatbot detectIntent (JObject props) st =
            (Done, \<lparr>statusCode = 200, sent = Some payload\<rparr>, st')
          \<and> outbound st' = outbound st @ [botRequest (sessionPath st) JUndefined]))
   \<and> (case get_prop (botRequest S message) ''queryInput'' of
         Inl e \<Rightarrow> Inl e
       | Inr queryInput \<Rightarrow>
           (case get_prop queryInput ''text'' of
              Inl e \<Rightarrow> Inl e
            | Inr t \<Rightarrow> get_prop t ''text'')) = Inr message"
proof -
  have empty: "\<exists>payload st'. post_chatbot detectIntent (JObject ((''message'', JString '''') # props)) st =
        (Done, \<lparr>statusCode = 200, sent = Some payload\<rparr>, st')
      \<and> outbound st' = outbound st @ [botRequest (sessionPath st) (JString '''')]"
    by (rule post_chatbot_done) simp_all
  have missing: "\<exists>payload st'. post_chatbot detectIntent (JObject props) st =
        (Done, \<lparr>statusCode = 200, sent = Some payload\<rparr>, st')
      \<and> outbound st' = outbound st @ [botRequest (sessionPath st) JUndefined]"
    if "map_of props ''message'' = None"
    using that by (intro post_chatbot_done) simp_all
  from empty missing botRequest_text show ?thesis by blast
qed

theorem empty_message_passed_through_witness:
  "(\<exists>payload st'. post_chatbot (answering []) (JObject [(''message'', JString '''')]) demo_process =
        (Done, \<lparr>statusCode = 200, sent = Some payload\<rparr>, st')
      \<and> outbound st' = [botRequest ''S'' (JString '''')])
   \<and> (\<exists>payload st'. post_chatbot (answering []) (JObject []) demo_process =
        (Done, \<lparr>statusCode = 200, sent = Some payload\<rparr>, st')
      \<and> outbound st' = [botRequest ''S'' JUndefined])"
  using empty_message_passed_through
    [where detectIntent = "answering []" and props = "[]" and st = demo_process]
  by (simp add: demo_process_def)

section \<open>The alternate handler\<close>

text \<open>
  C9. In the \<open>/send-msg\<close> variant, when the \<open>detectIntent\<close> call rejects, \<open>runSample\<close>
  rejects with the same error, the handler has no rejection handler for it, the
  rejection stays unhandled and \<open>res.send\<close> is never called: no response is sent.
\<close>

theorem send_msg_rejection_unhandled:
  assumes "get_prop reqbody ''MSG'' = Inr msg"
    and "detectIntent (outbound st)
           (sample_request (render default_projectId (sample_sessionId st)) msg) = Rejected e"
  shows "runSample render detectIntent msg default_projectId st =
           (Rejected e,
            st\<lparr>outbound := outbound st @
                  [sample_request (render default_projectId (sample_sessionId st)) msg]\<rparr>)
       \<and> fst (post_send_msg render detectIntent reqbody st) = UnhandledRejection e
       \<and> sent (fst (snd (post_send_msg render detectIntent reqbody st))) = None"
  using assms
  by (simp add: post_send_msg_def runSample_def call_remote_def new_res_def Let_def)

theorem send_msg_rejection_unhandled_witness:
  "fst (post_send_msg demo_render (failing (ServiceError ''unavailable''))
          (JObject [(''MSG'', JString ''hello'')]) (load_sample ''u'')) =
     UnhandledRejection (ServiceError ''unavailable'')
   \<and> sent (fst (snd (post_send_msg demo_render (failing (ServiceError ''unavailable''))
          (JObject [(''MSG'', JString ''hello'')]) (load_sample ''u'')))) = None"
  using send_msg_rejection_unhandled
    [where reqbody = "JObject [(''MSG'', JString ''hello'')]" and msg = "JString ''hello''"
       and detectIntent = "failing (ServiceError ''unavailable'')" and st = "load_sample ''u''"
       and render = demo_render and e = "ServiceError ''unavailable''"]
  by (simp add: failing_def)

lemma log_template_outbound:
  "log_template prefix v st = Inr st' \<Longrightarrow> outbound st' = outbound st"
  by (auto simp: log_template_def console_log_def split: if_splits)

lemma log_intent_outbound:
  "log_intent result st = Inr st' \<Longrightarrow> outbound st' = outbound st"
  by (auto simp: log_intent_def console_log_def dest: log_template_outbound
      split: sum.splits if_splits)

lemma report_result_outbound [simp]:
  "outbound (snd (report_result responses st)) = outbound st"
proof -
  have start: "outbound (console_log [Lit ''Detected intent''] st) = outbound st"
    by (simp add: console_log_def)
  show ?thesis
    using start
    by (auto simp: report_result_def Let_def
        dest!: log_template_outbound log_intent_outbound split: sum.splits)
qed

lemma report_result_fulfilled:
  "report_result responses st = (Fulfilled data, st') \<Longrightarrow>
   \<exists>result. get_prop (index0 responses) ''queryResult'' = Inr result
     \<and> get_prop result ''fulfillmentText'' = Inr data"
  by (auto simp: report_result_def Let_def split: sum.splits)

lemma runSample_outbound:
  "outbound (snd (runSample render detectIntent msg projectId st)) =
     outbound st @ [sample_request (render projectId (sample_sessionId st)) msg]"
  by (simp add: runSample_def call_remote_def Let_def split: promise.splits)

lemma runSample_fulfilled:
  assumes "runSample render detectIntent msg projectId st = (Fulfilled data, st')"
  shows "\<exists>responses result.
           detectIntent (outbound st) (sample_request (render projectId (sample_sessionId st)) msg) =
             Fulfilled responses
         \<and> get_prop (index0 responses) ''queryResult'' = Inr result
         \<and> get_prop result ''fulfillmentText'' = Inr data"
proof (cases "detectIntent (outbound st) (sample_request (render projectId (sample_sessionId st)) msg)")
  case (Fulfilled responses)
  with assms have "report_result responses
      (st\<lparr>outbound := outbound st @ [sample_request (render projectId (sample_sessionId st)) msg]\<rparr>) =
      (Fulfilled data, st')"
    by (simp add: runSample_def call_remote_def Let_def)
  from report_result_fulfilled [OF this] Fulfilled show ?thesis by blast
next
  case (Rejected e)
  with assms show ?thesis
    by (simp add: runSample_def call_remote_def Let_def)
qed

lemma post_send_msg_reply:
  assumes "get_prop sbody ''MSG'' = Inr msg"
    and "detectIntent (outbound sst)
           (sample_request (render default_projectId (sample_sessionId sst)) msg) = Fulfilled responses"
    and "get_prop (index0 responses) ''queryResult'' = Inr result"
    and "get_prop result ''queryText'' = Inr queryText" and "string_convertible queryText"
    and "get_prop result ''fulfillmentText'' = Inr f" and "string_convertible f"
    and "get_prop result ''intent'' = Inr intent"
    and "if truthy intent
         then (case get_prop intent ''displayName'' of
                 Inl e \<Rightarrow> False
               | Inr name \<Rightarrow> string_convertible name)
         else True"
  shows "fst (post_send_msg render detectIntent sbody sst) = Done
       \<and> fst (snd (post_send_msg render detectIntent sbody sst)) =
            \<lparr>statusCode = 200, sent = Some (JObject [(''Reply'', f)])\<rparr>"
proof -
  define st1 where "st1 = sst\<lparr>outbound := outbound sst @
      [sample_request (render default_projectId (sample_sessionId sst)) msg]\<rparr>"
  have intent_ok: "\<exists>st'. log_intent result st = Inr st'" for st
    using assms(8,9)
    by (cases "truthy intent")
       (auto simp: log_intent_def log_template_def split: sum.splits)
  have "\<exists>st'. report_result responses st1 = (Fulfilled f, st')"
  proof -
    define st2 where "st2 = console_log [Lit ''  Query: '', Val queryText]
        (console_log [Lit ''Detected intent''] st1)"
    define st3 where "st3 = console_log [Lit ''  Response: '', Val f] st2"
    obtain st4 where "log_intent result st3 = Inr st4"
      using intent_ok by blast
    then have "report_result responses st1 = (Fulfilled f, st4)"
      using assms(3-7)
      by (simp add: report_result_def log_template_def Let_def st2_def st3_def)
    then show ?thesis by blast
  qed
  then obtain st' where "report_result responses st1 = (Fulfilled f, st')"
    by blast
  then have "runSample render detectIntent msg default_projectId sst = (Fulfilled f, st')"
    using assms(2) by (simp add: runSample_def call_remote_def Let_def st1_def)
  then show ?thesis
    using assms(1) by (simp add: post_send_msg_def res_send_def new_res_def)
qed

text \<open>
  C7, as the code has it. The two variants differ. The handler of \<open>POST /chatbot\<close>
  reads the field \<open>message\<close> of the parsed body and, when that message has a string
  conversion, completes and sends with status 200 the body \<open>{message: v}\<close>, where \<open>v\<close>
  is what the Bridge resolved with: the \<open>queryResult\<close> of the first response when the
  remote call is fulfilled and that read succeeds, \<open>undefined\<close> otherwise.
  The handler of \<open>POST /send-msg\<close> reads the field \<open>MSG\<close>, which becomes the text of its
  outbound request. When the remote answers with a \<open>queryResult\<close> whose logged fields
  have string conversions it sends \<open>{Reply: f}\<close> with status 200, \<open>f\<close> being the
  \<open>fulfillmentText\<close> of that \<open>queryResult\<close>; and in every case it either sends \<open>{Reply: f}\<close>
  for that \<open>f\<close> or sends nothing.
\<close>

theorem endpoint_body_shapes:
  "(get_prop reqbody ''message'' = Inr message \<and> string_convertible message \<longrightarrow>
      fst (post_chatbot detectIntent reqbody st) = Done
      \<and> fst (snd (post_chatbot detectIntent reqbody st)) =
           \<lparr>statusCode = 200,
            sent = Some (JObject [(''message'',
              (case detectIntent (outbound st) (botRequest (sessionPath st) message) of
                 Fulfilled responses \<Rightarrow>
                   (case get_prop (index0 responses) ''queryResult'' of
                      Inl e \<Rightarrow> JUndefined
                    | Inr queryResult \<Rightarrow> queryResult)
               | Rejected e \<Rightarrow> JUndefined))])\<rparr>)
   \<and> (get_prop sbody ''MSG'' = Inr msg \<longrightarrow>
        outbound (snd (snd (post_send_msg render detectIntent sbody sst))) =
          outbound sst @ [sample_request (render default_projectId (sample_sessionId sst)) msg])
   \<and> (get_prop sbody ''MSG'' = Inr msg
        \<and> detectIntent (outbound sst)
             (sample_request (render default_projectId (sample_sessionId sst)) msg) =
             Fulfilled answers
        \<and> get_prop (index0 answers) ''queryResult'' = Inr answer
        \<and> get_prop answer ''queryText'' = Inr queryText \<and> string_convertible queryText
        \<and> get_prop answer ''fulfillmentText'' = Inr reply \<and> string_convertible reply
        \<and> get_prop answer ''intent'' = Inr intent
        \<and> (if truthy intent
            then (case get_prop intent ''displayName'' of
                    Inl e \<Rightarrow> False
                  | Inr name \<Rightarrow> string_convertible name)
            else True) \<longrightarrow>
        fst (post_send_msg render detectIntent sbody sst) = Done
        \<and> fst (snd (post_send_msg render detectIntent sbody sst)) =
             \<lparr>statusCode = 200, sent = Some (JObject [(''Reply'', reply)])\<rparr>)
   \<and> ((\<exists>responses result f.
          detectIntent (outbound sst)
            (sample_request (render default_projectId (sample_sessionId sst))
               (case get_prop sbody ''MSG'' of Inl e \<Rightarrow> JUndefined | Inr msg \<Rightarrow> msg)) =
            Fulfilled responses
          \<and> get_prop (index0 responses) ''queryResult'' = Inr result
          \<and> get_prop result ''fulfillmentText'' = Inr f
          \<and> sent (fst (snd (post_send_msg render detectIntent sbody sst))) =
               Some (JObject [(''Reply'', f)]))
        \<or> sent (fst (snd (post_send_msg render detectIntent sbody sst))) = None)"
proof -
  have chatbot: "fst (post_chatbot detectIntent reqbody st) = Done
      \<and> fst (snd (post_chatbot detectIntent reqbody st)) =
           \<lparr>statusCode = 200,
            sent = Some (JObject [(''message'',
              (case detectIntent (outbound st) (botRequest (sessionPath st) message) of
                 Fulfilled responses \<Rightarrow>
                   (case get_prop (index0 responses) ''queryResult'' of
                      Inl e \<Rightarrow> JUndefined
                    | Inr queryResult \<Rightarrow> queryResult)
               | Rejected e \<Rightarrow> JUndefined))])\<rparr>"
    if "get_prop reqbody ''message'' = Inr message" and "string_convertible message"
    using that by (rule post_chatbot_exact)
  have answered: "fst (post_send_msg render detectIntent sbody sst) = Done
        \<and> fst (snd (post_send_msg render detectIntent sbody sst)) =
             \<lparr>statusCode = 200, sent = Some (JObject [(''Reply'', reply)])\<rparr>"
    if "get_prop sbody ''MSG'' = Inr msg"
      and "detectIntent (outbound sst)
             (sample_request (render default_projectId (sample_sessionId sst)) msg) =
             Fulfilled answers"
      and "get_prop (index0 answers) ''queryResult'' = Inr answer"
      and "get_prop answer ''queryText'' = Inr queryText" and "string_convertible queryText"
      and "get_prop answer ''fulfillmentText'' = Inr reply" and "string_convertible reply"
      and "get_prop answer ''intent'' = Inr intent"
      and "if truthy intent
           then (case get_prop intent ''displayName'' of
                   Inl e \<Rightarrow> False
                 | Inr name \<Rightarrow> string_convertible name)
           else True"
    using that by (rule post_send_msg_reply)
  have reads: "outbound (snd (snd (post_send_msg render detectIntent sbody sst))) =
      outbound sst @ [sample_request (render default_projectId (sample_sessionId sst)) msg]"
    if m: "get_prop sbody ''MSG'' = Inr msg"
  proof -
    obtain q st3 where run: "runSample render detectIntent msg default_projectId sst = (q, st3)"
      by (cases "runSample render detectIntent msg default_projectId sst")
    have "outbound st3 =
        outbound sst @ [sample_request (render default_projectId (sample_sessionId sst)) msg]"
      using runSample_outbound [of render detectIntent msg default_projectId sst] run by simp
    with m run show ?thesis
      by (cases q) (simp_all add: post_send_msg_def)
  qed
  have reply: "(\<exists>responses result f.
          detectIntent (outbound sst)
            (sample_request (render default_projectId (sample_sessionId sst))
               (case get_prop sbody ''MSG'' of Inl e \<Rightarrow> JUndefined | Inr msg \<Rightarrow> msg)) =
            Fulfilled responses
          \<and> get_prop (index0 responses) ''queryResult'' = Inr result
          \<and> get_prop result ''fulfillmentText'' = Inr f
          \<and> sent (fst (snd (post_send_msg render detectIntent sbody sst))) =
               Some (JObject [(''Reply'', f)]))
        \<or> sent (fst (snd (post_send_msg render detectIntent sbody sst))) = None"
  proof (cases "get_prop sbody ''MSG''")
    case (Inl e)
    then show ?thesis by (simp add: post_send_msg_def new_res_def)
  next
    case (Inr m)
    obtain q st3 where run: "runSample render detectIntent m default_projectId sst = (q, st3)"
      by (cases "runSample render detectIntent m default_projectId sst")
    show ?thesis
    proof (cases q)
      case (Rejected e)
      with Inr run show ?thesis by (simp add: post_send_msg_def new_res_def)
    next
      case (Fulfilled data)
      with run obtain responses result where
        "detectIntent (outbound sst)
           (sample_request (render default_projectId (sample_sessionId sst)) m) = Fulfilled responses"
        "get_prop (index0 responses) ''queryResult'' = Inr result"
        "get_prop result ''fulfillmentText'' = Inr data"
        using runSample_fulfilled by blast
      moreover have "sent (fst (snd (post_send_msg render detectIntent sbody sst))) =
          Some (JObject [(''Reply'', data)])"
        using Inr run Fulfilled by (simp add: post_send_msg_def res_send_def new_res_def)
      ultimately show ?thesis using Inr by auto
    qed
  qed
  from chatbot reads answered reply show ?thesis by blast
qed

theorem endpoint_body_shapes_witness:
  "fst (snd (post_chatbot (answering [JObject [(''queryResult'', greeting)]]) hello_body demo_process)) =
     \<lparr>statusCode = 200, sent = Some (JObject [(''message'', greeting)])\<rparr>
   \<and> outbound (snd (snd (post_send_msg demo_render (answering [JObject [(''queryResult'', greeting)]])
        (JObject [(''MSG'', JString ''hello'')]) (load_sample ''u'')))) =
      [sample_request (demo_render default_projectId ''u'') (JString ''hello'')]
   \<and> fst (snd (post_send_msg demo_render (answering [JObject [(''queryResult'', greeting)]])
        (JObject [(''MSG'', JString ''hello'')]) (load_sample ''u''))) =
      \<lparr>statusCode = 200, sent = Some (JObject [(''Reply'', JString ''Hi'')])\<rparr>"
proof -
  note shapes = endpoint_body_shapes
    [where reqbody = hello_body and message = "JString ''hello''"
       and detectIntent = "answering [JObject [(''queryResult'', greeting)]]"
       and st = demo_process and sbody = "JObject [(''MSG'', JString ''hello'')]"
       and msg = "JString ''hello''" and render = demo_render and sst = "load_sample ''u''"
       and answers = "[JObject [(''queryResult'', greeting)]]" and answer = greeting
       and queryText = JUndefined and reply = "JString ''Hi''"
       and intent = "JObject [(''displayName'', JString ''greet'')]"]
  have main: "fst (snd (post_chatbot (answering [JObject [(''queryResult'', greeting)]]) hello_body
      demo_process)) = \<lparr>statusCode = 200, sent = Some (JObject [(''message'', greeting)])\<rparr>"
    using shapes by (simp add: hello_body_def answering_def index0_def)
  have reads: "outbound (snd (snd (post_send_msg demo_render
        (answering [JObject [(''queryResult'', greeting)]])
        (JObject [(''MSG'', JString ''hello'')]) (load_sample ''u'')))) =
      [sample_request (demo_render default_projectId ''u'') (JString ''hello'')]"
    using shapes by (simp add: load_sample_def)
  have alt: "fst (snd (post_send_msg demo_render (answering [JObject [(''queryResult'', greeting)]])
        (JObject [(''MSG'', JString ''hello'')]) (load_sample ''u''))) =
      \<lparr>statusCode = 200, sent = Some (JObject [(''Reply'', JString ''Hi'')])\<rparr>"
    using shapes by (simp add: answering_def index0_def greeting_def)
  from main reads alt show ?thesis by simp
qed

text \<open>
  The claim as worded fails on both variants. Given the body \<open>{message: "hello"}\<close> and a
  service that answers \<open>Hi\<close>, the handler of \<open>/send-msg\<close> does not read the message (the
  text it sends is \<open>undefined\<close>) and replies \<open>{Reply: "Hi"}\<close>, which has neither a
  \<open>message\<close> nor an \<open>error\<close> field; the handler of \<open>/chatbot\<close> replies with a \<open>message\<close>
  that is an object, neither a string nor \<open>null\<close>.
\<close>

theorem endpoint_body_shapes_counterexample:
  "sent (fst (snd (post_send_msg demo_render (answering [JObject [(''queryResult'', greeting)]])
          hello_body (load_sample ''u'')))) = Some (JObject [(''Reply'', JString ''Hi'')])
   \<and> outbound (snd (snd (post_send_msg demo_render (answering [JObject [(''queryResult'', greeting)]])
          hello_body (load_sample ''u'')))) =
       [sample_request (demo_render default_projectId ''u'') JUndefined]
   \<and> (\<forall>v. sent (fst (snd (post_send_msg demo_render
          (answering [JObject [(''queryResult'', greeting)]]) hello_body (load_sample ''u'')))) \<noteq>
        Some (JObject [(''message'', v)]))
   \<and> (\<forall>v. sent (fst (snd (post_send_msg demo_render
          (answering [JObject [(''queryResult'', greeting)]]) hello_body (load_sample ''u'')))) \<noteq>
        Some (JObject [(''error'', v)]))
   \<and> sent (fst (snd (post_chatbot (answering [JObject [(''queryResult'', greeting)]])
          hello_body demo_process))) = Some (JObject [(''message'', greeting)])
   \<and> (\<forall>s. greeting \<noteq> JString s) \<and> greeting \<noteq> JNull"
proof -
  have alt: "post_send_msg demo_render (answering [JObject [(''queryResult'', greeting)]])
      hello_body (load_sample ''u'') =
      (Done, \<lparr>statusCode = 200, sent = Some (JObject [(''Reply'', JString ''Hi'')])\<rparr>,
       \<lparr>console = [[Lit ''Detected intent''], [Lit ''  Query: '', Val JUndefined],
                   [Lit ''  Response: '', Val (JString ''Hi'')],
                   [Lit ''  Intent: '', Val (JString ''greet'')]],
        outbound = [sample_request (demo_render default_projectId ''u'') JUndefined],
        sample_sessionId = ''u''\<rparr>)"
    by (simp add: post_send_msg_def runSample_def call_remote_def report_result_def
        log_template_def log_intent_def console_log_def res_send_def new_res_def Let_def
        hello_body_def answering_def index0_def greeting_def load_sample_def)
  have main: "sent (fst (snd (post_chatbot (answering [JObject [(''queryResult'', greeting)]])
      hello_body demo_process))) = Some (JObject [(''message'', greeting)])"
    by (simp add: post_chatbot_def talkToChatbot_def call_remote_def console_log_def
        await_response_def requiredResponse_def respond_def res_send_def new_res_def Let_def
        hello_body_def answering_def index0_def demo_process_def)
  have obj: "(\<forall>s. greeting \<noteq> JString s) \<and> greeting \<noteq> JNull"
    by (simp add: greeting_def)
  from alt main obj show ?thesis by simp
qed

end
